theory Spec2Isabelle
  imports Main "HOL-Library.Multiset"
begin

section \<open>Data model\<close>

text \<open>
  The module \<^verbatim>\<open>helpers/utils/EffectiveURL.ts\<close> turns a request that still holds
  template placeholders into an executable one. Its types come from the package
  \<^verbatim>\<open>@hoppscotch/data\<close>; they are written here as the module uses them.

  Strings are lists of 8-bit characters: the code units 0 to 255, which is the domain on
  which the browser's \<^verbatim>\<open>btoa\<close> is defined.

  A header, a parameter and a raw key-value entry are all objects
  \<^verbatim>\<open>{ active, key, value }\<close>; a multipart entry has the same fields with a value
  that is a string or a list of blobs. One record, polymorphic in the value, covers them.
\<close>

record 'v KeyValue =
  active :: bool
  key :: string
  "value" :: 'v

type_synonym HoppRESTHeader = "string KeyValue"
type_synonym HoppRESTParam = "string KeyValue"
type_synonym RawKeyValueEntry = "string KeyValue"

text \<open>
  A variable is an object \<^verbatim>\<open>{ key, value }\<close>; a list of variables is searched
  from the front, so it is an association list.
\<close>

type_synonym Variable = "string \<times> string"

record Environment =
  name :: string
  variables :: "Variable list"

text \<open>
  The authentication configuration is \<^verbatim>\<open>{ authActive } & (none | basic | bearer |
  oauth-2 | api-key)\<close>, tagged by \<^verbatim>\<open>authType\<close>. Of the OAuth 2 fields the module
  reads the token only. \<^verbatim>\<open>addTo\<close> is compared with string literals, so it is a string.
\<close>

datatype HoppRESTAuthType =
    AuthNone
  | AuthBasic string string
  | AuthBearer string
  | AuthOAuth2 string
  | AuthAPIKey string string string

record HoppRESTAuth =
  authActive :: bool
  authType :: HoppRESTAuthType

text \<open>
  A multipart entry is a file entry (\<^verbatim>\<open>isFile: true\<close>, the value a list of blobs)
  or a text entry (\<^verbatim>\<open>isFile: false\<close>, the value a string): the flag and the shape of
  the value go together in the type, so the flag is read off the value.
\<close>

datatype Blob = Blob string

datatype FormValue = FileValue "Blob list" | TextValue string

type_synonym FormDataKeyValue = "FormValue KeyValue"

definition isFile :: "FormDataKeyValue \<Rightarrow> bool" where
  "isFile x = (case value x of FileValue _ \<Rightarrow> True | TextValue _ \<Rightarrow> False)"

text \<open>
  The body is tagged by its content type: \<^verbatim>\<open>null\<close>,
  \<^verbatim>\<open>application/x-www-form-urlencoded\<close> (raw text), \<^verbatim>\<open>multipart/form-data\<close>
  (a list of entries), or one of the other known content types (raw text), which
  \<open>BodyRaw\<close> carries.
\<close>

datatype HoppRESTReqBody =
    BodyNone
  | BodyUrlencoded string
  | BodyMultipart "FormDataKeyValue list"
  | BodyRaw string string

fun contentType :: "HoppRESTReqBody \<Rightarrow> string option" where
  "contentType BodyNone = None"
| "contentType (BodyUrlencoded _) = Some ''application/x-www-form-urlencoded''"
| "contentType (BodyMultipart _) = Some ''multipart/form-data''"
| "contentType (BodyRaw ct _) = Some ct"

text \<open>
  Of a request the module reads the endpoint, the headers, the parameters, the local
  variables, the authentication and the body. The other fields (the name, the scripts,
  the version) are copied to the result untouched; the method stands for them here.
\<close>

record HoppRESTRequest =
  "method" :: string
  endpoint :: string
  headers :: "HoppRESTHeader list"
  params :: "HoppRESTParam list"
  vars :: "Variable list"
  auth :: HoppRESTAuth
  body :: HoppRESTReqBody

text \<open>
  The materialised body is \<^verbatim>\<open>FormData | string | null\<close>. A \<^verbatim>\<open>FormData\<close> is the
  list of its entries in the order they were appended.
\<close>

datatype FormDataEntryValue = EntryString string | EntryBlob Blob

type_synonym FormDataEntry = "string \<times> FormDataEntryValue"

datatype FinalBody = FinalNull | FinalString string | FinalFormData "FormDataEntry list"

record EffectiveHoppRESTRequest = HoppRESTRequest +
  effectiveFinalURL :: string
  effectiveFinalHeaders :: "string KeyValue list"
  effectiveFinalParams :: "string KeyValue list"
  effectiveFinalBody :: FinalBody
  effectiveFinalVars :: "Variable list"

datatype HeaderSource = FromAuth | FromBody

record ComputedHeader =
  source :: HeaderSource
  header :: HoppRESTHeader

text \<open>The \<^verbatim>\<open>source\<close> of a computed parameter is always \<^verbatim>\<open>"auth"\<close>.\<close>

record ComputedParam =
  paramSource :: HeaderSource
  param :: HoppRESTParam

section \<open>Platform functions\<close>

text \<open>
  \<^verbatim>\<open>String.prototype.toLowerCase\<close> on the code units 0 to 255: the ASCII capitals and
  the Latin-1 capitals (192 to 222 without the multiplication sign 215) move up by 32.
\<close>

definition toLowerCaseChar :: "char \<Rightarrow> char" where
  "toLowerCaseChar c =
     (let n = (of_char c :: nat)
      in if (65 \<le> n \<and> n \<le> 90) \<or> (192 \<le> n \<and> n \<le> 222 \<and> n \<noteq> 215)
         then char_of (n + 32) else c)"

definition toLowerCase :: "string \<Rightarrow> string" where
  "toLowerCase s = map toLowerCaseChar s"

text \<open>
  \<^verbatim>\<open>btoa\<close>: base64 with the standard alphabet and \<^verbatim>\<open>=\<close> padding, three code
  units to four digits.
\<close>

definition base64Digit :: "nat \<Rightarrow> char" where
  "base64Digit n =
     ''ABCDEFGHIJKLMNOPQRSTUVWXYZabcdefghijklmnopqrstuvwxyz0123456789+/'' ! n"

fun btoaUnits :: "nat list \<Rightarrow> string" where
  "btoaUnits (a # b # c # rest) =
     [base64Digit (a div 4), base64Digit ((a mod 4) * 16 + b div 16),
      base64Digit ((b mod 16) * 4 + c div 64), base64Digit (c mod 64)] @ btoaUnits rest"
| "btoaUnits [a, b] =
     [base64Digit (a div 4), base64Digit ((a mod 4) * 16 + b div 16),
      base64Digit ((b mod 16) * 4), CHR ''='']"
| "btoaUnits [a] =
     [base64Digit (a div 4), base64Digit ((a mod 4) * 16), CHR ''='', CHR ''='']"
| "btoaUnits [] = []"

definition btoa :: "string \<Rightarrow> string" where
  "btoa s = btoaUnits (map of_char s)"

section \<open>Template resolution\<close>

text \<open>
  Modelled from the spec: the scanner of the template resolver of
  \<^verbatim>\<open>@hoppscotch/data\<close>, which is not among the sources. The spec speaks of
  \<^verbatim>\<open>{{name}}\<close> placeholders and of substituting every occurrence. A template is cut
  into literal characters and placeholders in one pass from the left: a placeholder opens
  at \<^verbatim>\<open>{{\<close> and runs to the next \<^verbatim>\<open>}}\<close>; an opening with no closing is
  literal text.
\<close>

datatype TemplatePart = Literal char | Placeholder string

fun placeholderEnd :: "string \<Rightarrow> (string \<times> string) option" where
  "placeholderEnd (a # b # cs) =
     (if a = CHR ''}'' \<and> b = CHR ''}'' then Some ([], cs)
      else map_option (\<lambda>(n, r). (a # n, r)) (placeholderEnd (b # cs)))"
| "placeholderEnd cs = None"

fun placeholderAt :: "string \<Rightarrow> (string \<times> string) option" where
  "placeholderAt (a # b # cs) = (if a = CHR ''{'' \<and> b = CHR ''{'' then placeholderEnd cs else None)"
| "placeholderAt cs = None"

function templateParts :: "string \<Rightarrow> TemplatePart list" where
  "templateParts [] = []"
| "templateParts (c # cs) =
     (case placeholderAt (c # cs) of
        Some (n, rest) \<Rightarrow> Placeholder n # templateParts rest
      | None \<Rightarrow> Literal c # templateParts cs)"
  by pat_completeness auto
termination
proof (relation "measure length")
  show "wf (measure length)" by simp
next
  fix c :: char and cs x2 n rest
  assume o: "placeholderAt (c # cs) = Some x2" and x2: "(n, rest) = x2"
  have end_shorter: "placeholderEnd s = Some (m, r) \<Longrightarrow> length r < length s" for s m r
  proof (induction s arbitrary: m r rule: placeholderEnd.induct)
    case (1 a b cs)
    then show ?case by (auto split: if_splits)
  qed simp_all
  from o x2 have "\<exists>ds. cs = CHR ''{'' # ds \<and> placeholderEnd ds = Some (n, rest)"
    by (cases cs) (auto split: if_splits)
  then obtain ds where "cs = CHR ''{'' # ds" and "placeholderEnd ds = Some (n, rest)" by blast
  with end_shorter [of ds n rest] show "(rest, c # cs) \<in> measure length" by simp
next
  fix c :: char and cs
  show "(cs, c # cs) \<in> measure length" by simp
qed

text \<open>
  Modelled from the spec: the lookup of a placeholder's name. Local variables take
  precedence over the scope; each list is searched from the front and the first matching
  key wins. A bound placeholder is replaced by its value, an unbound one stays as
  literal text.
\<close>

definition lookupVar :: "Variable list \<Rightarrow> Variable list \<Rightarrow> string \<Rightarrow> string option" where
  "lookupVar scope localVars n =
     (case map_of localVars n of Some v \<Rightarrow> Some v | None \<Rightarrow> map_of scope n)"

fun renderPart :: "(string \<Rightarrow> string option) \<Rightarrow> TemplatePart \<Rightarrow> string" where
  "renderPart look (Literal c) = [c]"
| "renderPart look (Placeholder n) =
     (case look n of Some v \<Rightarrow> v | None \<Rightarrow> ''{{'' @ n @ ''}}'')"

definition renderTemplate :: "(string \<Rightarrow> string option) \<Rightarrow> string \<Rightarrow> string" where
  "renderTemplate look str = concat (map (renderPart look) (templateParts str))"

text \<open>
  Modelled from the spec: \<^verbatim>\<open>parseTemplateString\<close> of \<^verbatim>\<open>@hoppscotch/data\<close> is not
  among the sources; the spec gives its interface as
  \<^verbatim>\<open>resolveTemplate(text, scope, localVars?)\<close>, which never fails. The third argument
  is optional in the source; a call that leaves it out passes \<open>[]\<close>.
\<close>

definition parseTemplateString :: "string \<Rightarrow> Variable list \<Rightarrow> Variable list \<Rightarrow> string" where
  "parseTemplateString str scope localVars =
     renderTemplate (lookupVar scope localVars) str"

text \<open>
  Modelled from the spec: \<^verbatim>\<open>parseTemplateStringE\<close> of \<^verbatim>\<open>@hoppscotch/data\<close> is not
  among the sources; the spec gives its interface as
  \<^verbatim>\<open>resolveTemplateChecked(text, scope)\<close>: the same resolution, but it reports
  failure instead of leaving an unbound placeholder as literal text.
\<close>

datatype TemplateError = UnboundPlaceholder

fun boundPart :: "Variable list \<Rightarrow> TemplatePart \<Rightarrow> bool" where
  "boundPart scope (Literal c) = True"
| "boundPart scope (Placeholder n) = (map_of scope n \<noteq> None)"

definition parseTemplateStringE :: "string \<Rightarrow> Variable list \<Rightarrow> TemplateError + string" where
  "parseTemplateStringE str scope =
     (if list_all (boundPart scope) (templateParts str)
      then Inr (parseTemplateString str scope [])
      else Inl UnboundPlaceholder)"

text \<open>
  Modelled from the spec: \<^verbatim>\<open>parseBodyEnvVariables\<close> of \<^verbatim>\<open>@hoppscotch/data\<close>, the
  whole-string resolver of a raw body, is not among the sources; it template-resolves
  the raw body string against the scope.
\<close>

definition parseBodyEnvVariables :: "string \<Rightarrow> Variable list \<Rightarrow> string" where
  "parseBodyEnvVariables str scope = parseTemplateString str scope []"

section \<open>Computed headers and parameters\<close>

definition getComputedAuthHeaders :: "HoppRESTRequest \<Rightarrow> Variable list \<Rightarrow> HoppRESTHeader list" where
  "getComputedAuthHeaders req envVars =
     (if find (\<lambda>h. toLowerCase (key h) = ''authorization'') (headers req) \<noteq> None then []
      else if \<not> authActive (auth req) then []
      else (case authType (auth req) of
          AuthBasic username password \<Rightarrow>
            [\<lparr>active = True, key = ''Authorization'',
              value = ''Basic '' @ btoa (parseTemplateString username envVars [] @ '':'' @
                                         parseTemplateString password envVars [])\<rparr>]
        | AuthBearer token \<Rightarrow>
            [\<lparr>active = True, key = ''Authorization'',
              value = ''Bearer '' @ parseTemplateString token envVars []\<rparr>]
        | AuthOAuth2 token \<Rightarrow>
            [\<lparr>active = True, key = ''Authorization'',
              value = ''Bearer '' @ parseTemplateString token envVars []\<rparr>]
        | AuthAPIKey k v addTo \<Rightarrow>
            (if addTo = ''Headers''
             then [\<lparr>active = True, key = parseTemplateString k envVars [],
                    value = parseTemplateString v envVars []\<rparr>]
             else [])
        | AuthNone \<Rightarrow> []))"

definition getComputedBodyHeaders :: "HoppRESTRequest \<Rightarrow> HoppRESTHeader list" where
  "getComputedBodyHeaders req =
     (if find (\<lambda>h. active h \<and> toLowerCase (key h) = ''content-type'') (headers req) \<noteq> None
      then []
      else (case contentType (body req) of
          None \<Rightarrow> []
        | Some ct \<Rightarrow> [\<lparr>active = True, key = ''content-type'', value = ct\<rparr>]))"

definition getComputedHeaders :: "HoppRESTRequest \<Rightarrow> Variable list \<Rightarrow> ComputedHeader list" where
  "getComputedHeaders req envVars =
     map (\<lambda>h. \<lparr>source = FromAuth, header = h\<rparr>) (getComputedAuthHeaders req envVars) @
     map (\<lambda>h. \<lparr>source = FromBody, header = h\<rparr>) (getComputedBodyHeaders req)"

definition getComputedParams :: "HoppRESTRequest \<Rightarrow> Variable list \<Rightarrow> ComputedParam list" where
  "getComputedParams req envVars =
     (if \<not> authActive (auth req) then []
      else (case authType (auth req) of
          AuthAPIKey k v addTo \<Rightarrow>
            (if addTo \<noteq> ''Query params'' then []
             else [\<lparr>paramSource = FromAuth,
                    param = \<lparr>active = True, key = parseTemplateString k envVars [],
                             value = parseTemplateString v envVars []\<rparr>\<rparr>])
        | _ \<Rightarrow> []))"

section \<open>Helpers of the body materialiser\<close>

text \<open>
  Modelled from the spec: \<^verbatim>\<open>arraySort\<close> of \<^verbatim>\<open>helpers/functional/array\<close>, a
  copy of the array sorted by the engine with the given comparator, is not among the
  sources. The spec calls the sort a stable sort. \<open>arraySort\<close> is an insertion sort
  that takes the elements in their original order and moves the new element in front of
  the elements already placed for which the comparator, called with the new element
  first, returns a negative number; it never asks the comparator with the earlier
  element first. \<open>placed\<close> holds the elements placed so far, the last one first.
\<close>

fun insertSorted :: "('a \<Rightarrow> 'a \<Rightarrow> int) \<Rightarrow> 'a \<Rightarrow> 'a list \<Rightarrow> 'a list" where
  "insertSorted cmp x [] = [x]"
| "insertSorted cmp x (e # placed) =
     (if cmp x e < 0 then e # insertSorted cmp x placed else x # e # placed)"

definition arraySort :: "('a \<Rightarrow> 'a \<Rightarrow> int) \<Rightarrow> 'a list \<Rightarrow> 'a list" where
  "arraySort cmp arr = rev (foldl (\<lambda>placed x. insertSorted cmp x placed) [] arr)"

text \<open>
  Modelled from the spec: \<^verbatim>\<open>arrayFlatMap\<close> of \<^verbatim>\<open>helpers/functional/array\<close> is
  not among the sources; it maps every element to a list and concatenates the lists.
\<close>

definition arrayFlatMap :: "('a \<Rightarrow> 'b list) \<Rightarrow> 'a list \<Rightarrow> 'b list" where
  "arrayFlatMap f arr = concat (map f arr)"

text \<open>
  Modelled from the spec: \<^verbatim>\<open>toFormData\<close> of \<^verbatim>\<open>helpers/functional/formData\<close> is
  not among the sources; it appends every entry, in order, to an empty container.
\<close>

definition toFormData :: "FormDataEntry list \<Rightarrow> FormDataEntry list" where
  "toFormData entries = foldl (\<lambda>formData e. formData @ [e]) [] entries"

text \<open>
  Modelled from the spec: \<^verbatim>\<open>parseRawKeyValueEntriesE\<close> of \<^verbatim>\<open>@hoppscotch/data\<close>
  is not among the sources. The spec describes the raw body as newline- or
  ampersand-delimited \<^verbatim>\<open>key=value\<close> entries and a parse that fails on malformed
  syntax: an entry with no \<^verbatim>\<open>=\<close> fails the parse; empty segments are skipped.
\<close>

datatype ParseError = MalformedEntry

fun splitOn :: "(char \<Rightarrow> bool) \<Rightarrow> string \<Rightarrow> string list" where
  "splitOn d [] = [[]]"
| "splitOn d (c # cs) =
     (if d c then [] # splitOn d cs
      else (case splitOn d cs of s # ss \<Rightarrow> (c # s) # ss | [] \<Rightarrow> [[c]]))"

definition rawEntry :: "string \<Rightarrow> RawKeyValueEntry" where
  "rawEntry seg =
     \<lparr>active = True, key = takeWhile (\<lambda>c. c \<noteq> CHR ''='') seg,
      value = drop 1 (dropWhile (\<lambda>c. c \<noteq> CHR ''='') seg)\<rparr>"

definition parseRawKeyValueEntriesE :: "string \<Rightarrow> ParseError + RawKeyValueEntry list" where
  "parseRawKeyValueEntriesE raw =
     (let segs = filter (\<lambda>s. s \<noteq> []) (splitOn (\<lambda>c. c = CHR 0x0A \<or> c = CHR ''&'') raw)
      in if list_all (\<lambda>s. CHR ''='' \<in> set s) segs then Inr (map rawEntry segs)
         else Inl MalformedEntry)"

text \<open>
  Modelled from the spec: \<^verbatim>\<open>tupleWithSameKeysToRecord\<close> of
  \<^verbatim>\<open>helpers/functional/record\<close> is not among the sources. Entries with the same key
  are grouped into one list of values, the keys in first-seen order.
\<close>

fun addTuple :: "(string \<times> 'v list) list \<Rightarrow> string \<times> 'v \<Rightarrow> (string \<times> 'v list) list" where
  "addTuple [] (k, v) = [(k, [v])]"
| "addTuple ((k', vs) # obj) (k, v) =
     (if k' = k then (k', vs @ [v]) # obj else (k', vs) # addTuple obj (k, v))"

definition tupleWithSameKeysToRecord :: "(string \<times> 'v) list \<Rightarrow> (string \<times> 'v list) list" where
  "tupleWithSameKeysToRecord tuples = foldl addTuple [] tuples"

text \<open>
  Modelled from the spec: \<^verbatim>\<open>qs.stringify\<close> with \<^verbatim>\<open>indices: false\<close> is not among
  the sources. The record is serialised with the standard query-string encoding, array
  indices suppressed: one \<^verbatim>\<open>key=value\<close> pair per value, joined by \<^verbatim>\<open>&\<close>. The
  encoding keeps letters, digits and \<^verbatim>\<open>-._~\<close> and writes every other code unit as
  the percent-encoded bytes of its UTF-8 form.
\<close>

definition hexDigit :: "nat \<Rightarrow> char" where
  "hexDigit n = ''0123456789ABCDEF'' ! n"

definition percentByte :: "nat \<Rightarrow> string" where
  "percentByte n = [CHR ''%'', hexDigit (n div 16), hexDigit (n mod 16)]"

definition qsEncodeChar :: "char \<Rightarrow> string" where
  "qsEncodeChar c =
     (let n = (of_char c :: nat)
      in if (48 \<le> n \<and> n \<le> 57) \<or> (65 \<le> n \<and> n \<le> 90) \<or> (97 \<le> n \<and> n \<le> 122) \<or>
            n = 45 \<or> n = 46 \<or> n = 95 \<or> n = 126
         then [c]
         else if n < 128 then percentByte n
         else percentByte (192 + n div 64) @ percentByte (128 + n mod 64))"

definition qsEncode :: "string \<Rightarrow> string" where
  "qsEncode s = concat (map qsEncodeChar s)"

fun joinWith :: "string \<Rightarrow> string list \<Rightarrow> string" where
  "joinWith sep [] = []"
| "joinWith sep [s] = s"
| "joinWith sep (s # t # ss) = s @ sep @ joinWith sep (t # ss)"

definition qsPairs :: "(string \<times> string list) list \<Rightarrow> (string \<times> string) list" where
  "qsPairs obj = concat (map (\<lambda>(k, vs). map (\<lambda>v. (k, v)) vs) obj)"

definition qsStringify :: "(string \<times> string list) list \<Rightarrow> string" where
  "qsStringify obj = joinWith ''&'' (map (\<lambda>(k, v). qsEncode k @ ''='' @ qsEncode v) (qsPairs obj))"

section \<open>The body materialiser\<close>

definition getFinalBodyFromRequest :: "HoppRESTRequest \<Rightarrow> Variable list \<Rightarrow> FinalBody" where
  "getFinalBodyFromRequest request envVariables =
     (case body request of
        BodyNone \<Rightarrow> FinalNull
      | BodyUrlencoded raw \<Rightarrow>
          (let parsedBodyRecord =
                 map_sum id
                   (\<lambda>entries.
                      qsStringify (tupleWithSameKeysToRecord
                        (List.map_filter
                           (\<lambda>(k, v). case (k, v) of
                                (Inr kr, Inr vr) \<Rightarrow> Some (kr, vr)
                              | _ \<Rightarrow> None)
                           (map (\<lambda>x. (parseTemplateStringE (key x) envVariables,
                                        parseTemplateStringE (value x) envVariables))
                              (filter (\<lambda>x. active x \<and> key x \<noteq> []) entries)))))
                   (parseRawKeyValueEntriesE raw)
           in case parsedBodyRecord of Inr s \<Rightarrow> FinalString s | Inl e \<Rightarrow> FinalNull)
      | BodyMultipart entries \<Rightarrow>
          FinalFormData
            (toFormData
               (arrayFlatMap
                  (\<lambda>x. case value x of
                       FileValue blobs \<Rightarrow>
                         map (\<lambda>v. (parseTemplateString (key x) envVariables [], EntryBlob v)) blobs
                     | TextValue text \<Rightarrow>
                         [(parseTemplateString (key x) envVariables [],
                           EntryString (parseTemplateString text envVariables []))])
                  (arraySort (\<lambda>a b. if isFile a then 1 else if isFile b then - 1 else 0)
                     (filter (\<lambda>x. key x \<noteq> [] \<and> active x) entries))))
      | BodyRaw ct raw \<Rightarrow> FinalString (parseBodyEnvVariables raw envVariables))"

section \<open>The effective request\<close>

text \<open>
  \<^verbatim>\<open>getGlobalVariables()\<close> reads the global variables of the application's store,
  which the module never writes. The value it returns at the time of the call is the
  argument \<open>globalVariables\<close>. The result spreads the request and adds the five
  derived fields.
\<close>

definition getEffectiveRESTRequest ::
  "Variable list \<Rightarrow> HoppRESTRequest \<Rightarrow> Environment \<Rightarrow> EffectiveHoppRESTRequest" where
  "getEffectiveRESTRequest globalVariables request environment =
     (let envVariables = variables environment @ globalVariables;
          finalHeaders =
            map (\<lambda>x. \<lparr>active = True,
                       key = parseTemplateString (key x) envVariables [],
                       value = parseTemplateString (value x) envVariables []\<rparr>)
              (filter (\<lambda>x. active x \<and> key x \<noteq> [])
                 (map header (getComputedHeaders request envVariables) @ headers request));
          finalParams =
            map (\<lambda>x. \<lparr>active = True,
                       key = parseTemplateString (key x) envVariables [],
                       value = parseTemplateString (value x) envVariables []\<rparr>)
              (filter (\<lambda>x. active x \<and> key x \<noteq> [])
                 (map param (getComputedParams request envVariables) @ params request));
          finalVars = vars request;
          finalBody = getFinalBodyFromRequest request envVariables
      in \<lparr>method = method request, endpoint = endpoint request, headers = headers request,
          params = params request, vars = vars request, auth = auth request,
          body = body request,
          effectiveFinalURL =
            parseTemplateString (endpoint request) envVariables (vars request),
          effectiveFinalHeaders = finalHeaders,
          effectiveFinalParams = finalParams,
          effectiveFinalBody = finalBody,
          effectiveFinalVars = finalVars\<rparr>)"

section \<open>Auxiliary facts\<close>

lemma find_exists: "(find P xs = None) = (\<not> (\<exists>x\<in>set xs. P x))"
  by (auto simp: find_None_iff)

lemma auth_headers_guard:
  "\<exists>h\<in>set (headers req). toLowerCase (key h) = ''authorization'' \<Longrightarrow>
   getComputedAuthHeaders req envVars = []"
  by (simp add: getComputedAuthHeaders_def find_exists)

lemma auth_part_of_computed:
  "map header (filter (\<lambda>c. source c = FromAuth) (getComputedHeaders req envVars)) =
   getComputedAuthHeaders req envVars"
  by (simp add: getComputedHeaders_def filter_map comp_def)

lemma body_part_of_computed:
  "map header (filter (\<lambda>c. source c = FromBody) (getComputedHeaders req envVars)) =
   getComputedBodyHeaders req"
  by (simp add: getComputedHeaders_def filter_map comp_def)

lemma body_headers_cases:
  "getComputedBodyHeaders req =
     (if (\<exists>h\<in>set (headers req). active h \<and> toLowerCase (key h) = ''content-type'') then []
      else case contentType (body req) of None \<Rightarrow> []
           | Some ct \<Rightarrow> [\<lparr>active = True, key = ''content-type'', value = ct\<rparr>])"
  by (simp add: getComputedBodyHeaders_def find_exists)

lemma lower_AUTHORIZATION: "toLowerCase ''AUTHORIZATION'' = ''authorization''"
  by code_simp

lemma lower_Content_Type: "toLowerCase ''Content-Type'' = ''content-type''"
  by code_simp



lemma lookupVar_append: "lookupVar scope localVars = map_of (localVars @ scope)"
  by (rule ext) (simp add: lookupVar_def map_add_def split: option.splits)

lemma lookupVar_no_locals: "lookupVar scope [] = map_of scope"
  by (simp add: lookupVar_append)

lemma final_headers_eq:
  "effectiveFinalHeaders (getEffectiveRESTRequest g req env) =
     map (\<lambda>x. \<lparr>active = True,
                key = parseTemplateString (key x) (variables env @ g) [],
                value = parseTemplateString (value x) (variables env @ g) []\<rparr>)
       (filter (\<lambda>x. active x \<and> key x \<noteq> [])
          (map header (getComputedHeaders req (variables env @ g)) @ headers req))"
  by (simp add: getEffectiveRESTRequest_def Let_def)

lemma final_params_eq:
  "effectiveFinalParams (getEffectiveRESTRequest g req env) =
     map (\<lambda>x. \<lparr>active = True,
                key = parseTemplateString (key x) (variables env @ g) [],
                value = parseTemplateString (value x) (variables env @ g) []\<rparr>)
       (filter (\<lambda>x. active x \<and> key x \<noteq> [])
          (map param (getComputedParams req (variables env @ g)) @ params req))"
  by (simp add: getEffectiveRESTRequest_def Let_def)

lemma final_body_eq:
  "effectiveFinalBody (getEffectiveRESTRequest g req env) =
     getFinalBodyFromRequest req (variables env @ g)"
  by (simp add: getEffectiveRESTRequest_def Let_def)

lemma final_url_eq:
  "effectiveFinalURL (getEffectiveRESTRequest g req env) =
     parseTemplateString (endpoint req) (variables env @ g) (vars req)"
  by (simp add: getEffectiveRESTRequest_def Let_def)





lemma computed_auth_headers_vars:
  "getComputedAuthHeaders (req\<lparr>vars := locals\<rparr>) envVars = getComputedAuthHeaders req envVars"
  by (simp add: getComputedAuthHeaders_def)

lemma computed_body_headers_vars:
  "getComputedBodyHeaders (req\<lparr>vars := locals\<rparr>) = getComputedBodyHeaders req"
  by (simp add: getComputedBodyHeaders_def)

lemma computed_headers_vars:
  "getComputedHeaders (req\<lparr>vars := locals\<rparr>) envVars = getComputedHeaders req envVars"
  by (simp add: getComputedHeaders_def computed_auth_headers_vars computed_body_headers_vars)

lemma computed_params_vars:
  "getComputedParams (req\<lparr>vars := locals\<rparr>) envVars = getComputedParams req envVars"
  by (simp add: getComputedParams_def)

lemma final_body_vars:
  "getFinalBodyFromRequest (req\<lparr>vars := locals\<rparr>) envVars = getFinalBodyFromRequest req envVars"
  by (simp add: getFinalBodyFromRequest_def)

lemma parts_item_id:
  "templateParts ''/item/{{id}}'' =
     [Literal CHR ''/'', Literal CHR ''i'', Literal CHR ''t'', Literal CHR ''e'',
      Literal CHR ''m'', Literal CHR ''/'', Placeholder ''id'']"
  by simp







lemma qsPairs_addTuple: "mset (qsPairs (addTuple obj (k, v))) = mset (qsPairs obj) + {#(k, v)#}"
  by (induction obj "(k, v)" rule: addTuple.induct) (simp_all add: qsPairs_def)

lemma qsPairs_foldl:
  "mset (qsPairs (foldl addTuple obj tuples)) = mset (qsPairs obj) + mset tuples"
proof (induction tuples arbitrary: obj)
  case Nil
  then show ?case by simp
next
  case (Cons t tuples)
  then show ?case by (cases t) (simp add: qsPairs_addTuple)
qed

lemma qsPairs_record: "mset (qsPairs (tupleWithSameKeysToRecord tuples)) = mset tuples"
  using qsPairs_foldl [of "[]" tuples] by (simp add: tupleWithSameKeysToRecord_def qsPairs_def)

lemma map_filter_rights:
  "List.map_filter
     (\<lambda>(k, v). case k of Inl a \<Rightarrow> None
                | Inr kr \<Rightarrow> (case v of Inl a \<Rightarrow> None | Inr vr \<Rightarrow> Some (kr, vr)))
     (map (\<lambda>x. (f x, g x)) xs) =
   map (\<lambda>x. (projr (f x), projr (g x))) (filter (\<lambda>x. \<not> isl (f x) \<and> \<not> isl (g x)) xs)"
  by (induction xs) (auto split: sum.splits)

section \<open>The final header and parameter lists\<close>




section \<open>The multipart body\<close>



section \<open>Which variables each field sees\<close>

text \<open>
  Claim C3. The final URL is the endpoint rendered with one lookup table: the local
  variables of the request, then the variables of the environment, then the global
  variables, the first binding of a name winning; with a local binding of \<^verbatim>\<open>id\<close>
  to \<^verbatim>\<open>local\<close> the endpoint \<^verbatim>\<open>/item/{{id}}\<close> becomes \<^verbatim>\<open>/item/local\<close>
  whatever the environment and the global variables bind. The final headers, the final
  parameters and the final body do not change when the local variables are replaced by
  any other list; the headers and parameters are rendered with the table of the
  environment variables followed by the global variables, and the body is materialised
  with that same list.
\<close>

theorem url_locals_first_rest_scope_only:
  "effectiveFinalURL (getEffectiveRESTRequest g req env) =
     renderTemplate (map_of (vars req @ variables env @ g)) (endpoint req) \<and>
   (endpoint req = ''/item/{{id}}'' \<and> map_of (vars req) ''id'' = Some ''local'' \<longrightarrow>
      effectiveFinalURL (getEffectiveRESTRequest g req env) = ''/item/local'') \<and>
   effectiveFinalHeaders (getEffectiveRESTRequest g (req\<lparr>vars := locals\<rparr>) env) =
     effectiveFinalHeaders (getEffectiveRESTRequest g req env) \<and>
   effectiveFinalParams (getEffectiveRESTRequest g (req\<lparr>vars := locals\<rparr>) env) =
     effectiveFinalParams (getEffectiveRESTRequest g req env) \<and>
   effectiveFinalBody (getEffectiveRESTRequest g (req\<lparr>vars := locals\<rparr>) env) =
     effectiveFinalBody (getEffectiveRESTRequest g req env) \<and>
   effectiveFinalBody (getEffectiveRESTRequest g req env) =
     getFinalBodyFromRequest req (variables env @ g) \<and>
   effectiveFinalHeaders (getEffectiveRESTRequest g req env) =
     map (\<lambda>x. \<lparr>active = True,
                key = renderTemplate (map_of (variables env @ g)) (key x),
                value = renderTemplate (map_of (variables env @ g)) (value x)\<rparr>)
       (filter (\<lambda>x. active x \<and> key x \<noteq> [])
          (map header (getComputedHeaders req (variables env @ g)) @ headers req)) \<and>
   effectiveFinalParams (getEffectiveRESTRequest g req env) =
     map (\<lambda>x. \<lparr>active = True,
                key = renderTemplate (map_of (variables env @ g)) (key x),
                value = renderTemplate (map_of (variables env @ g)) (value x)\<rparr>)
       (filter (\<lambda>x. active x \<and> key x \<noteq> [])
          (map param (getComputedParams req (variables env @ g)) @ params req))"
proof (intro conjI impI)
  show url: "effectiveFinalURL (getEffectiveRESTRequest g req env) =
     renderTemplate (map_of (vars req @ variables env @ g)) (endpoint req)"
    by (simp add: final_url_eq parseTemplateString_def lookupVar_append)
  assume "endpoint req = ''/item/{{id}}'' \<and> map_of (vars req) ''id'' = Some ''local''"
  then show "effectiveFinalURL (getEffectiveRESTRequest g req env) = ''/item/local''"
    by (simp add: url renderTemplate_def parts_item_id map_add_def del: templateParts.simps)
next
  show "effectiveFinalHeaders (getEffectiveRESTRequest g (req\<lparr>vars := locals\<rparr>) env) =
     effectiveFinalHeaders (getEffectiveRESTRequest g req env)"
    by (simp add: final_headers_eq computed_headers_vars)
next
  show "effectiveFinalParams (getEffectiveRESTRequest g (req\<lparr>vars := locals\<rparr>) env) =
     effectiveFinalParams (getEffectiveRESTRequest g req env)"
    by (simp add: final_params_eq computed_params_vars)
next
  show "effectiveFinalBody (getEffectiveRESTRequest g (req\<lparr>vars := locals\<rparr>) env) =
     effectiveFinalBody (getEffectiveRESTRequest g req env)"
    by (simp add: final_body_eq final_body_vars)
next
  show "effectiveFinalBody (getEffectiveRESTRequest g req env) =
     getFinalBodyFromRequest req (variables env @ g)"
    by (rule final_body_eq)
next
  show "effectiveFinalHeaders (getEffectiveRESTRequest g req env) =
     map (\<lambda>x. \<lparr>active = True,
                key = renderTemplate (map_of (variables env @ g)) (key x),
                value = renderTemplate (map_of (variables env @ g)) (value x)\<rparr>)
       (filter (\<lambda>x. active x \<and> key x \<noteq> [])
          (map header (getComputedHeaders req (variables env @ g)) @ headers req))"
    by (simp add: final_headers_eq parseTemplateString_def lookupVar_no_locals)
next
  show "effectiveFinalParams (getEffectiveRESTRequest g req env) =
     map (\<lambda>x. \<lparr>active = True,
                key = renderTemplate (map_of (variables env @ g)) (key x),
                value = renderTemplate (map_of (variables env @ g)) (value x)\<rparr>)
       (filter (\<lambda>x. active x \<and> key x \<noteq> [])
          (map param (getComputedParams req (variables env @ g)) @ params req))"
    by (simp add: final_params_eq parseTemplateString_def lookupVar_no_locals)
qed

theorem url_locals_first_rest_scope_only_witness:
  "effectiveFinalURL (getEffectiveRESTRequest [(''id'', ''global'')]
     \<lparr>method = ''GET'', endpoint = ''/item/{{id}}'',
      headers = [\<lparr>active = True, key = ''X-Id'', value = ''{{id}}''\<rparr>],
      params = [\<lparr>active = True, key = ''id'', value = ''{{id}}''\<rparr>],
      vars = [(''id'', ''local'')],
      auth = \<lparr>authActive = False, authType = AuthNone\<rparr>,
      body = BodyRaw ''text/plain'' ''id={{id}}''\<rparr>
     \<lparr>name = ''env'', variables = [(''id'', ''env'')]\<rparr>) = ''/item/local'' \<and>
   effectiveFinalHeaders (getEffectiveRESTRequest [(''id'', ''global'')]
     \<lparr>method = ''GET'', endpoint = ''/item/{{id}}'',
      headers = [\<lparr>active = True, key = ''X-Id'', value = ''{{id}}''\<rparr>],
      params = [\<lparr>active = True, key = ''id'', value = ''{{id}}''\<rparr>],
      vars = [(''id'', ''local'')],
      auth = \<lparr>authActive = False, authType = AuthNone\<rparr>,
      body = BodyRaw ''text/plain'' ''id={{id}}''\<rparr>
     \<lparr>name = ''env'', variables = [(''id'', ''env'')]\<rparr>) =
     [\<lparr>active = True, key = ''content-type'', value = ''text/plain''\<rparr>,
      \<lparr>active = True, key = ''X-Id'', value = ''env''\<rparr>] \<and>
   effectiveFinalParams (getEffectiveRESTRequest [(''id'', ''global'')]
     \<lparr>method = ''GET'', endpoint = ''/item/{{id}}'',
      headers = [\<lparr>active = True, key = ''X-Id'', value = ''{{id}}''\<rparr>],
      params = [\<lparr>active = True, key = ''id'', value = ''{{id}}''\<rparr>],
      vars = [(''id'', ''local'')],
      auth = \<lparr>authActive = False, authType = AuthNone\<rparr>,
      body = BodyRaw ''text/plain'' ''id={{id}}''\<rparr>
     \<lparr>name = ''env'', variables = [(''id'', ''env'')]\<rparr>) =
     [\<lparr>active = True, key = ''id'', value = ''env''\<rparr>] \<and>
   effectiveFinalBody (getEffectiveRESTRequest [(''id'', ''global'')]
     \<lparr>method = ''GET'', endpoint = ''/item/{{id}}'',
      headers = [\<lparr>active = True, key = ''X-Id'', value = ''{{id}}''\<rparr>],
      params = [\<lparr>active = True, key = ''id'', value = ''{{id}}''\<rparr>],
      vars = [(''id'', ''local'')],
      auth = \<lparr>authActive = False, authType = AuthNone\<rparr>,
      body = BodyRaw ''text/plain'' ''id={{id}}''\<rparr>
     \<lparr>name = ''env'', variables = [(''id'', ''env'')]\<rparr>) = FinalString ''id=env'' \<and>
   effectiveFinalURL (getEffectiveRESTRequest [(''id'', ''global'')]
     \<lparr>method = ''GET'', endpoint = ''/item/{{id}}'',
      headers = [], params = [], vars = [],
      auth = \<lparr>authActive = False, authType = AuthNone\<rparr>,
      body = BodyNone\<rparr>
     \<lparr>name = ''env'', variables = []\<rparr>) = ''/item/global''"
proof -
  let ?req = "\<lparr>method = ''GET'', endpoint = ''/item/{{id}}'',
      headers = [\<lparr>active = True, key = ''X-Id'', value = ''{{id}}''\<rparr>],
      params = [\<lparr>active = True, key = ''id'', value = ''{{id}}''\<rparr>],
      vars = [(''id'', ''local'')],
      auth = \<lparr>authActive = False, authType = AuthNone\<rparr>,
      body = BodyRaw ''text/plain'' ''id={{id}}''\<rparr>"
  let ?env = "\<lparr>name = ''env'', variables = [(''id'', ''env'')]\<rparr>"
  let ?g = "[(''id'', ''global'')]"
  note t = url_locals_first_rest_scope_only [of ?g ?req ?env, THEN conjunct2, THEN conjunct1]
  from t have one: "effectiveFinalURL (getEffectiveRESTRequest ?g ?req ?env) = ''/item/local''"
    by simp
  have two: "effectiveFinalHeaders (getEffectiveRESTRequest ?g ?req ?env) =
     [\<lparr>active = True, key = ''content-type'', value = ''text/plain''\<rparr>,
      \<lparr>active = True, key = ''X-Id'', value = ''env''\<rparr>]"
    by code_simp
  have three: "effectiveFinalParams (getEffectiveRESTRequest ?g ?req ?env) =
     [\<lparr>active = True, key = ''id'', value = ''env''\<rparr>]"
    by code_simp
  have four: "effectiveFinalBody (getEffectiveRESTRequest ?g ?req ?env) = FinalString ''id=env''"
    by code_simp
  have five: "effectiveFinalURL (getEffectiveRESTRequest ?g
     \<lparr>method = ''GET'', endpoint = ''/item/{{id}}'',
      headers = [], params = [], vars = [],
      auth = \<lparr>authActive = False, authType = AuthNone\<rparr>,
      body = BodyNone\<rparr>
     \<lparr>name = ''env'', variables = []\<rparr>) = ''/item/global''"
    by code_simp
  from one two three four five show ?thesis by blast
qed

section \<open>A declared Authorization header\<close>

text \<open>
  Claim C4. When the request declares a header whose key, in lower case, is
  \<^verbatim>\<open>authorization\<close>, whether that header is active or not, no header is derived from
  the authentication configuration, whatever that configuration is: the list of
  auth-derived headers is empty, and no computed header has the source \<^verbatim>\<open>auth\<close>.
\<close>

theorem declared_authorization_no_auth_header:
  assumes "h \<in> set (headers req)" and "toLowerCase (key h) = ''authorization''"
  shows "getComputedAuthHeaders req envVars = [] \<and>
         filter (\<lambda>c. source c = FromAuth) (getComputedHeaders req envVars) = []"
proof -
  from assms have none: "getComputedAuthHeaders req envVars = []"
    by (intro auth_headers_guard) blast
  have "map header (filter (\<lambda>c. source c = FromAuth) (getComputedHeaders req envVars)) = []"
    by (simp only: auth_part_of_computed none)
  with none show ?thesis by simp
qed

theorem declared_authorization_no_auth_header_witness:
  "getComputedAuthHeaders
     \<lparr>method = ''GET'', endpoint = ''/'',
      headers = [\<lparr>active = True, key = ''AUTHORIZATION'', value = ''mine''\<rparr>],
      params = [], vars = [],
      auth = \<lparr>authActive = True, authType = AuthBasic ''u'' ''p''\<rparr>,
      body = BodyNone\<rparr> [] = [] \<and>
   filter (\<lambda>c. source c = FromAuth)
     (getComputedHeaders
        \<lparr>method = ''GET'', endpoint = ''/'',
         headers = [\<lparr>active = True, key = ''AUTHORIZATION'', value = ''mine''\<rparr>],
         params = [], vars = [],
         auth = \<lparr>authActive = True, authType = AuthBasic ''u'' ''p''\<rparr>,
         body = BodyNone\<rparr> []) = []"
  by (rule declared_authorization_no_auth_header
        [of "\<lparr>active = True, key = ''AUTHORIZATION'', value = ''mine''\<rparr>"])
     (simp_all add: lower_AUTHORIZATION)

section \<open>The urlencoded body\<close>

text \<open>
  Claim C5. When the raw text of a urlencoded body does not parse, the materialised body
  is null. When it parses, the body is the serialisation of the record built from the
  resolved pairs of exactly those entries that are active, have a non-empty key, and
  whose key and value both pass the checked resolution: an entry whose key or value
  fails it is left out, and the pairs of the record are the pairs of all the other
  entries, each as often as it occurs.
\<close>

theorem urlencoded_parse_failure_and_dropped_entries:
  "(body request = BodyUrlencoded raw \<and> parseRawKeyValueEntriesE raw = Inl e \<longrightarrow>
      getFinalBodyFromRequest request envVariables = FinalNull) \<and>
   (body request = BodyUrlencoded raw \<and> parseRawKeyValueEntriesE raw = Inr entries \<longrightarrow>
      getFinalBodyFromRequest request envVariables =
        FinalString (qsStringify (tupleWithSameKeysToRecord
          (map (\<lambda>x. (projr (parseTemplateStringE (key x) envVariables),
                     projr (parseTemplateStringE (value x) envVariables)))
             (filter (\<lambda>x. \<not> isl (parseTemplateStringE (key x) envVariables) \<and>
                          \<not> isl (parseTemplateStringE (value x) envVariables))
                (filter (\<lambda>x. active x \<and> key x \<noteq> []) entries))))) \<and>
      mset (qsPairs (tupleWithSameKeysToRecord
          (map (\<lambda>x. (projr (parseTemplateStringE (key x) envVariables),
                     projr (parseTemplateStringE (value x) envVariables)))
             (filter (\<lambda>x. \<not> isl (parseTemplateStringE (key x) envVariables) \<and>
                          \<not> isl (parseTemplateStringE (value x) envVariables))
                (filter (\<lambda>x. active x \<and> key x \<noteq> []) entries))))) =
        mset (map (\<lambda>x. (projr (parseTemplateStringE (key x) envVariables),
                        projr (parseTemplateStringE (value x) envVariables)))
                (filter (\<lambda>x. \<not> isl (parseTemplateStringE (key x) envVariables) \<and>
                             \<not> isl (parseTemplateStringE (value x) envVariables))
                   (filter (\<lambda>x. active x \<and> key x \<noteq> []) entries))))"
proof (intro conjI impI)
  assume "body request = BodyUrlencoded raw \<and> parseRawKeyValueEntriesE raw = Inl e"
  then show "getFinalBodyFromRequest request envVariables = FinalNull"
    by (simp add: getFinalBodyFromRequest_def)
next
  assume "body request = BodyUrlencoded raw \<and> parseRawKeyValueEntriesE raw = Inr entries"
  then show "getFinalBodyFromRequest request envVariables =
        FinalString (qsStringify (tupleWithSameKeysToRecord
          (map (\<lambda>x. (projr (parseTemplateStringE (key x) envVariables),
                     projr (parseTemplateStringE (value x) envVariables)))
             (filter (\<lambda>x. \<not> isl (parseTemplateStringE (key x) envVariables) \<and>
                          \<not> isl (parseTemplateStringE (value x) envVariables))
                (filter (\<lambda>x. active x \<and> key x \<noteq> []) entries)))))"
    by (simp add: getFinalBodyFromRequest_def map_filter_rights)
next
  show "mset (qsPairs (tupleWithSameKeysToRecord
          (map (\<lambda>x. (projr (parseTemplateStringE (key x) envVariables),
                     projr (parseTemplateStringE (value x) envVariables)))
             (filter (\<lambda>x. \<not> isl (parseTemplateStringE (key x) envVariables) \<and>
                          \<not> isl (parseTemplateStringE (value x) envVariables))
                (filter (\<lambda>x. active x \<and> key x \<noteq> []) entries))))) =
        mset (map (\<lambda>x. (projr (parseTemplateStringE (key x) envVariables),
                        projr (parseTemplateStringE (value x) envVariables)))
                (filter (\<lambda>x. \<not> isl (parseTemplateStringE (key x) envVariables) \<and>
                             \<not> isl (parseTemplateStringE (value x) envVariables))
                   (filter (\<lambda>x. active x \<and> key x \<noteq> []) entries)))"
    by (rule qsPairs_record)
qed

theorem urlencoded_parse_failure_and_dropped_entries_witness:
  "getFinalBodyFromRequest
     \<lparr>method = ''POST'', endpoint = ''/'', headers = [], params = [], vars = [],
      auth = \<lparr>authActive = False, authType = AuthNone\<rparr>,
      body = BodyUrlencoded ''a=1&novalue''\<rparr> [(''v'', ''1'')] = FinalNull \<and>
   getFinalBodyFromRequest
     \<lparr>method = ''POST'', endpoint = ''/'', headers = [], params = [], vars = [],
      auth = \<lparr>authActive = False, authType = AuthNone\<rparr>,
      body = BodyUrlencoded ''a={{v}}&b={{w}}&{{w}}=2&=3&c=x y&a=4''\<rparr> [(''v'', ''1'')] =
     FinalString ''a=1&a=4&c=x%20y''"
proof -
  let ?bad = "\<lparr>method = ''POST'', endpoint = ''/'', headers = [], params = [], vars = [],
      auth = \<lparr>authActive = False, authType = AuthNone\<rparr>,
      body = BodyUrlencoded ''a=1&novalue''\<rparr>"
  have p: "parseRawKeyValueEntriesE ''a=1&novalue'' = Inl MalformedEntry" by code_simp
  from urlencoded_parse_failure_and_dropped_entries
         [of ?bad "''a=1&novalue''" MalformedEntry "[(''v'', ''1'')]", THEN conjunct1] p
  have one: "getFinalBodyFromRequest ?bad [(''v'', ''1'')] = FinalNull" by simp
  have two: "getFinalBodyFromRequest
     \<lparr>method = ''POST'', endpoint = ''/'', headers = [], params = [], vars = [],
      auth = \<lparr>authActive = False, authType = AuthNone\<rparr>,
      body = BodyUrlencoded ''a={{v}}&b={{w}}&{{w}}=2&=3&c=x y&a=4''\<rparr> [(''v'', ''1'')] =
     FinalString ''a=1&a=4&c=x%20y''"
    by code_simp
  from one two show ?thesis by blast
qed

section \<open>The API key as a query parameter\<close>

text \<open>
  Claim C6. The computed parameters are exactly one parameter, with the resolved key and
  the resolved value of the authentication configuration, when the authentication is
  active, of type \<^verbatim>\<open>api-key\<close> and added to \<^verbatim>\<open>Query params\<close>, and then no header
  is derived from the authentication; in every other case there is no computed
  parameter. The example of the claim (key \<^verbatim>\<open>X\<close>, value \<^verbatim>\<open>{{token}}\<close>, the
  environment binding \<^verbatim>\<open>token\<close> to \<^verbatim>\<open>abc\<close>) is evaluated after the theorem.
\<close>

theorem api_key_query_param:
  "(authActive (auth req) \<and> authType (auth req) = AuthAPIKey k v ''Query params'' \<longrightarrow>
      getComputedParams req envVars =
        [\<lparr>paramSource = FromAuth,
          param = \<lparr>active = True, key = parseTemplateString k envVars [],
                   value = parseTemplateString v envVars []\<rparr>\<rparr>] \<and>
      getComputedAuthHeaders req envVars = []) \<and>
   (\<not> (authActive (auth req) \<and> (\<exists>k v. authType (auth req) = AuthAPIKey k v ''Query params'')) \<longrightarrow>
      getComputedParams req envVars = [])"
  by (auto simp: getComputedParams_def getComputedAuthHeaders_def
           split: HoppRESTAuthType.splits)

theorem api_key_query_param_witness:
  "getComputedParams
     \<lparr>method = ''GET'', endpoint = ''/'', headers = [], params = [], vars = [],
      auth = \<lparr>authActive = True, authType = AuthAPIKey ''X'' ''{{token}}'' ''Query params''\<rparr>,
      body = BodyNone\<rparr> [(''token'', ''abc'')] =
     [\<lparr>paramSource = FromAuth, param = \<lparr>active = True, key = ''X'', value = ''abc''\<rparr>\<rparr>] \<and>
   getComputedAuthHeaders
     \<lparr>method = ''GET'', endpoint = ''/'', headers = [], params = [], vars = [],
      auth = \<lparr>authActive = True, authType = AuthAPIKey ''X'' ''{{token}}'' ''Query params''\<rparr>,
      body = BodyNone\<rparr> [(''token'', ''abc'')] = [] \<and>
   effectiveFinalParams (getEffectiveRESTRequest []
     \<lparr>method = ''GET'', endpoint = ''/'', headers = [], params = [], vars = [],
      auth = \<lparr>authActive = True, authType = AuthAPIKey ''X'' ''{{token}}'' ''Query params''\<rparr>,
      body = BodyNone\<rparr> \<lparr>name = ''env'', variables = [(''token'', ''abc'')]\<rparr>) =
     [\<lparr>active = True, key = ''X'', value = ''abc''\<rparr>] \<and>
   getComputedParams
     \<lparr>method = ''GET'', endpoint = ''/'', headers = [], params = [], vars = [],
      auth = \<lparr>authActive = True, authType = AuthAPIKey ''X'' ''{{token}}'' ''Headers''\<rparr>,
      body = BodyNone\<rparr> [(''token'', ''abc'')] = []"
proof -
  let ?req = "\<lparr>method = ''GET'', endpoint = ''/'', headers = [], params = [], vars = [],
      auth = \<lparr>authActive = True, authType = AuthAPIKey ''X'' ''{{token}}'' ''Query params''\<rparr>,
      body = BodyNone\<rparr>"
  let ?hdr = "\<lparr>method = ''GET'', endpoint = ''/'', headers = [], params = [], vars = [],
      auth = \<lparr>authActive = True, authType = AuthAPIKey ''X'' ''{{token}}'' ''Headers''\<rparr>,
      body = BodyNone\<rparr>"
  have k: "parseTemplateString ''X'' [(''token'', ''abc'')] [] = ''X''" by code_simp
  have v: "parseTemplateString ''{{token}}'' [(''token'', ''abc'')] [] = ''abc''" by code_simp
  have a: "parseTemplateString ''abc'' [(''token'', ''abc'')] [] = ''abc''" by code_simp
  from api_key_query_param [of ?req "''X''" "''{{token}}''" "[(''token'', ''abc'')]"]
  have one: "getComputedParams ?req [(''token'', ''abc'')] =
      [\<lparr>paramSource = FromAuth, param = \<lparr>active = True, key = ''X'', value = ''abc''\<rparr>\<rparr>]"
    and two: "getComputedAuthHeaders ?req [(''token'', ''abc'')] = []"
    by (simp_all add: k v)
  from one have three: "effectiveFinalParams (getEffectiveRESTRequest [] ?req
      \<lparr>name = ''env'', variables = [(''token'', ''abc'')]\<rparr>) =
      [\<lparr>active = True, key = ''X'', value = ''abc''\<rparr>]"
    by (simp add: getEffectiveRESTRequest_def Let_def k a)
  from api_key_query_param [of ?hdr _ _ "[(''token'', ''abc'')]"]
  have four: "getComputedParams ?hdr [(''token'', ''abc'')] = []" by simp
  from one two three four show ?thesis by blast
qed

section \<open>Basic authentication\<close>



section \<open>The content-type header of the body\<close>

text \<open>
  Claim C8. A header is derived from the body if and only if no active header has the
  key \<^verbatim>\<open>content-type\<close> in lower case and the content type of the body is not null.
  It is then the only body-derived header, it is active, its key is
  \<^verbatim>\<open>content-type\<close> and its value is the declared content type itself: no template
  resolution is applied to it, and the computed headers carry it unchanged under the source
  \<^verbatim>\<open>body\<close>. (The assembler later resolves every header it keeps, this one included;
  the content types of \<^verbatim>\<open>@hoppscotch/data\<close> hold no placeholder.)
\<close>

theorem body_content_type_header:
  "(getComputedBodyHeaders req \<noteq> []) =
     (\<not> (\<exists>h\<in>set (headers req). active h \<and> toLowerCase (key h) = ''content-type'') \<and>
      contentType (body req) \<noteq> None) \<and>
   (\<forall>c\<in>set (getComputedBodyHeaders req).
      getComputedBodyHeaders req = [c] \<and> active c \<and> key c = ''content-type'' \<and>
      contentType (body req) = Some (value c)) \<and>
   map header (filter (\<lambda>c. source c = FromBody) (getComputedHeaders req envVars)) =
     getComputedBodyHeaders req"
  by (auto simp: body_headers_cases body_part_of_computed split: option.splits)

theorem body_content_type_header_witness:
  "getComputedBodyHeaders
     \<lparr>method = ''POST'', endpoint = ''/'',
      headers = [\<lparr>active = False, key = ''Content-Type'', value = ''text/plain''\<rparr>],
      params = [], vars = [],
      auth = \<lparr>authActive = False, authType = AuthNone\<rparr>,
      body = BodyRaw ''application/{{kind}}'' ''{}''\<rparr> =
     [\<lparr>active = True, key = ''content-type'', value = ''application/{{kind}}''\<rparr>] \<and>
   getComputedBodyHeaders
     \<lparr>method = ''POST'', endpoint = ''/'',
      headers = [\<lparr>active = True, key = ''Content-Type'', value = ''text/plain''\<rparr>],
      params = [], vars = [],
      auth = \<lparr>authActive = False, authType = AuthNone\<rparr>,
      body = BodyRaw ''application/json'' ''{}''\<rparr> = [] \<and>
   getComputedBodyHeaders
     \<lparr>method = ''GET'', endpoint = ''/'', headers = [], params = [], vars = [],
      auth = \<lparr>authActive = False, authType = AuthNone\<rparr>,
      body = BodyNone\<rparr> = []"
proof -
  let ?inactive = "\<lparr>method = ''POST'', endpoint = ''/'',
      headers = [\<lparr>active = False, key = ''Content-Type'', value = ''text/plain''\<rparr>],
      params = [], vars = [],
      auth = \<lparr>authActive = False, authType = AuthNone\<rparr>,
      body = BodyRaw ''application/{{kind}}'' ''{}''\<rparr>"
  let ?declared = "\<lparr>method = ''POST'', endpoint = ''/'',
      headers = [\<lparr>active = True, key = ''Content-Type'', value = ''text/plain''\<rparr>],
      params = [], vars = [],
      auth = \<lparr>authActive = False, authType = AuthNone\<rparr>,
      body = BodyRaw ''application/json'' ''{}''\<rparr>"
  let ?nobody = "\<lparr>method = ''GET'', endpoint = ''/'', headers = [], params = [], vars = [],
      auth = \<lparr>authActive = False, authType = AuthNone\<rparr>,
      body = BodyNone\<rparr>"
  have "getComputedBodyHeaders ?inactive \<noteq> []"
    using body_content_type_header [of ?inactive "[]"] by simp
  then obtain c cs where c: "getComputedBodyHeaders ?inactive = c # cs"
    by (cases "getComputedBodyHeaders ?inactive") auto
  then have "c \<in> set (getComputedBodyHeaders ?inactive)" by simp
  with body_content_type_header [of ?inactive "[]"]
  have "getComputedBodyHeaders ?inactive = [c] \<and> active c \<and> key c = ''content-type'' \<and>
        contentType (body ?inactive) = Some (value c)"
    by blast
  then have one: "getComputedBodyHeaders ?inactive =
      [\<lparr>active = True, key = ''content-type'', value = ''application/{{kind}}''\<rparr>]"
    by (cases c) simp
  have two: "getComputedBodyHeaders ?declared = []"
    using body_content_type_header [of ?declared "[]"] by (simp add: lower_Content_Type)
  have three: "getComputedBodyHeaders ?nobody = []"
    using body_content_type_header [of ?nobody "[]"] by simp
  from one two three show ?thesis by blast
qed

section \<open>Determinism\<close>



section \<open>The two guards and the active flag\<close>

text \<open>
  Claim C10. The guard of the auth-derived headers does not look at the active flag: an
  inactive declared header keyed \<^verbatim>\<open>authorization\<close> (in lower case) suppresses them.
  The guard of the body-derived header does: when every declared header keyed
  \<^verbatim>\<open>content-type\<close> (in lower case) is inactive, the header is still derived from a
  body with a content type, and an active one suppresses it.
\<close>

theorem guards_differ_on_active_flag:
  "(h \<in> set (headers req) \<and> \<not> active h \<and> toLowerCase (key h) = ''authorization'' \<longrightarrow>
      getComputedAuthHeaders req envVars = []) \<and>
   ((\<forall>h\<in>set (headers req). toLowerCase (key h) = ''content-type'' \<longrightarrow> \<not> active h) \<and>
    contentType (body req) = Some ct \<longrightarrow>
      getComputedBodyHeaders req = [\<lparr>active = True, key = ''content-type'', value = ct\<rparr>]) \<and>
   (h \<in> set (headers req) \<and> active h \<and> toLowerCase (key h) = ''content-type'' \<longrightarrow>
      getComputedBodyHeaders req = [])"
proof (intro conjI impI)
  assume "h \<in> set (headers req) \<and> \<not> active h \<and> toLowerCase (key h) = ''authorization''"
  then have "\<exists>h\<in>set (headers req). toLowerCase (key h) = ''authorization''" by blast
  then show "getComputedAuthHeaders req envVars = []" by (rule auth_headers_guard)
next
  assume "(\<forall>h\<in>set (headers req). toLowerCase (key h) = ''content-type'' \<longrightarrow> \<not> active h) \<and>
          contentType (body req) = Some ct"
  then show "getComputedBodyHeaders req = [\<lparr>active = True, key = ''content-type'', value = ct\<rparr>]"
    by (auto simp: body_headers_cases)
next
  assume "h \<in> set (headers req) \<and> active h \<and> toLowerCase (key h) = ''content-type''"
  then show "getComputedBodyHeaders req = []"
    by (auto simp: body_headers_cases)
qed

theorem guards_differ_on_active_flag_witness:
  "getComputedAuthHeaders
     \<lparr>method = ''POST'', endpoint = ''/'',
      headers = [\<lparr>active = False, key = ''authorization'', value = ''mine''\<rparr>,
                 \<lparr>active = False, key = ''content-type'', value = ''text/plain''\<rparr>],
      params = [], vars = [],
      auth = \<lparr>authActive = True, authType = AuthBearer ''t''\<rparr>,
      body = BodyRaw ''application/json'' ''{}''\<rparr> [] = [] \<and>
   getComputedBodyHeaders
     \<lparr>method = ''POST'', endpoint = ''/'',
      headers = [\<lparr>active = False, key = ''authorization'', value = ''mine''\<rparr>,
                 \<lparr>active = False, key = ''content-type'', value = ''text/plain''\<rparr>],
      params = [], vars = [],
      auth = \<lparr>authActive = True, authType = AuthBearer ''t''\<rparr>,
      body = BodyRaw ''application/json'' ''{}''\<rparr> =
     [\<lparr>active = True, key = ''content-type'', value = ''application/json''\<rparr>]"
proof -
  let ?req = "\<lparr>method = ''POST'', endpoint = ''/'',
      headers = [\<lparr>active = False, key = ''authorization'', value = ''mine''\<rparr>,
                 \<lparr>active = False, key = ''content-type'', value = ''text/plain''\<rparr>],
      params = [], vars = [],
      auth = \<lparr>authActive = True, authType = AuthBearer ''t''\<rparr>,
      body = BodyRaw ''application/json'' ''{}''\<rparr>"
  have la: "toLowerCase ''authorization'' = ''authorization''" by code_simp
  note g = guards_differ_on_active_flag
    [of "\<lparr>active = False, key = ''authorization'', value = ''mine''\<rparr>" ?req "[]"
        "''application/json''"]
  from g la have one: "getComputedAuthHeaders ?req [] = []" by simp
  from g have two: "getComputedBodyHeaders ?req =
      [\<lparr>active = True, key = ''content-type'', value = ''application/json''\<rparr>]" by simp
  from one two show ?thesis by blast
qed

end
